theory Spec2Isabelle
  imports Main
begin

section \<open>MAC control component: the UE registry (lib/mac/mac_ctrl/mac_ctrl_component.cc)\<close>

subsection \<open>Types and constants\<close>

text \<open>
  \<open>du_ue_index_t\<close>, \<open>rnti_t\<close> and \<open>du_cell_index_t\<close> are unsigned integer types of
  srsgnb/ran/du_types.h; the only arithmetic the component does on them is \<open>%\<close> and the
  comparisons \<open>\<less>\<close>, \<open>=\<close>, which on unsigned values are those of the naturals.
\<close>

type_synonym du_ue_index_t = nat
type_synonym rnti_t = nat
type_synonym du_cell_index_t = nat

text \<open>
  The constants \<open>MAX_NOF_UES\<close> and \<open>INVALID_RNTI\<close> are declared in a header that is not
  among the sources at hand, so every operation takes them as a parameter.
\<close>

record du_types =
  MAX_NOF_UES :: du_ue_index_t
  INVALID_RNTI :: rnti_t

datatype error = assertion_failure string

subsection \<open>Messages\<close>

text \<open>Of each message, the fields the component reads or writes.\<close>

record mac_ue_create_request_message =
  create_ue_index :: du_ue_index_t
  create_crnti :: rnti_t
  create_cell_index :: du_cell_index_t

record mac_ue_create_request_response_message =
  create_resp_ue_index :: du_ue_index_t
  create_resp_cell_index :: du_cell_index_t
  create_resp_result :: bool

record mac_ue_delete_request_message =
  delete_ue_index :: du_ue_index_t
  delete_rnti :: rnti_t

record mac_ue_delete_response_message =
  delete_resp_ue_index :: du_ue_index_t
  delete_resp_result :: bool

record mac_ue_reconfiguration_request_message =
  reconf_ue_index :: du_ue_index_t
  reconf_crnti :: rnti_t

record mac_ue_reconfiguration_response_message =
  reconf_resp_ue_index :: du_ue_index_t
  reconf_resp_result :: bool

text \<open>The calls received by \<open>cfg.cfg_notifier\<close>, the result sink, in the order made.\<close>

datatype notification =
  on_ue_create_request_complete mac_ue_create_request_response_message
| on_ue_delete_complete mac_ue_delete_response_message
| on_ue_reconfiguration_complete mac_ue_reconfiguration_response_message

text \<open>
  The lines written to \<open>logger\<close>. \<open>log_proc_failure\<close> takes index, RNTI, the
  \<open>name()\<close> of a procedure class and a cause; the names are strings defined with the
  classes, so a line records the class.
\<close>

datatype procedure_class =
  class_mac_ue_create_request_procedure
| class_mac_ue_delete_procedure
| class_mac_ue_reconfiguration_procedure

datatype log_entry =
  proc_failure du_ue_index_t rnti_t procedure_class string
| warning string du_ue_index_t
| debug string du_ue_index_t
| info string du_ue_index_t

subsection \<open>Procedures, control loops and the component's state\<close>

text \<open>
  The procedure classes are defined outside the sources at hand; a scheduled procedure is
  recorded by its class and the message it was built from.
\<close>

datatype procedure =
  mac_ue_create_request_procedure mac_ue_create_request_message
| mac_ue_delete_procedure mac_ue_delete_request_message
| mac_ue_reconfiguration_procedure mac_ue_reconfiguration_request_message

record mac_ue_context =
  du_ue_index :: du_ue_index_t
  rnti :: rnti_t
  pcell_idx :: du_cell_index_t

text \<open>
  Modelled from the spec: the per-entity control loop (the class behind \<open>ctrl_loop\<close> is not
  among the sources). It holds the tasks of one entity in the order scheduled, the head
  being the one in flight; \<open>schedule\<close> appends; the loop is drained when no task is in
  flight or queued; the suspension returned by \<open>request_stop\<close> resolves once the loop is
  drained.
\<close>

type_synonym ctrl_loop_t = "procedure list"

definition schedule :: "procedure \<Rightarrow> ctrl_loop_t \<Rightarrow> ctrl_loop_t" where
  "schedule p l = l @ [p]"

definition drained :: "ctrl_loop_t \<Rightarrow> bool" where
  "drained l = (l = [])"

definition request_stop_resolved :: "ctrl_loop_t \<Rightarrow> bool" where
  "request_stop_resolved l = drained l"

record ue_element =
  ue_ctx :: mac_ue_context
  ctrl_loop :: ctrl_loop_t

text \<open>
  The closure that \<open>remove_ue\<close> puts on the main control loop is a coroutine with one
  suspension point; a scheduled closure is its captured \<open>ue_index\<close> and where it stands.
\<close>

datatype coro_point = coro_begin | coro_await_stop

record removal_task =
  captured_ue_index :: du_ue_index_t
  resume_at :: coro_point

text \<open>
  Modelled from the spec: the table type of \<open>ue_db\<close> (declared in a header that is not
  among the sources) is a sparse map from entity index to element, with \<open>contains\<close>,
  \<open>emplace\<close>, \<open>erase\<close> and \<open>[]\<close>; \<open>contains\<close> tells whether an index holds an
  element. \<open>rnti_to_ue_index_map\<close> is an array of \<open>MAX_NOF_UES\<close> entity indexes.
\<close>

record mac_ctrl_component =
  ue_db :: "du_ue_index_t \<rightharpoonup> ue_element"
  rnti_to_ue_index_map :: "du_ue_index_t list"
  main_ctrl_loop :: "removal_task list"
  cfg_notifier :: "notification list"
  logger :: "log_entry list"

definition contains :: "(du_ue_index_t \<rightharpoonup> ue_element) \<Rightarrow> du_ue_index_t \<Rightarrow> bool" where
  "contains db i = (db i \<noteq> None)"

text \<open>The constructor fills the reverse index with \<open>MAX_NOF_UES\<close>, the mark of a free slot.\<close>

definition mac_ctrl_component_init :: "du_types \<Rightarrow> mac_ctrl_component" where
  "mac_ctrl_component_init c =
     \<lparr>ue_db = Map.empty,
      rnti_to_ue_index_map = replicate (MAX_NOF_UES c) (MAX_NOF_UES c),
      main_ctrl_loop = [],
      cfg_notifier = [],
      logger = []\<rparr>"

subsection \<open>The registry operations\<close>

text \<open>
  A returned \<open>ue_element*\<close> is the index of the element in \<open>ue_db\<close>, \<open>nullptr\<close> is
  \<open>None\<close>; a failed \<open>srsran_assert\<close> is \<open>Inl\<close>.
\<close>

definition add_ue ::
  "du_types \<Rightarrow> du_ue_index_t \<Rightarrow> rnti_t \<Rightarrow> du_cell_index_t \<Rightarrow> mac_ctrl_component
     \<Rightarrow> error + (du_ue_index_t option \<times> mac_ctrl_component)" where
  "add_ue c ue_index crnti cell_index s =
     (if crnti = INVALID_RNTI c then Inl (assertion_failure ''Invalid RNTI'')
      else if \<not> ue_index < MAX_NOF_UES c then Inl (assertion_failure ''Invalid ue_index'')
      else if rnti_to_ue_index_map s ! (crnti mod MAX_NOF_UES c) < MAX_NOF_UES c
        then Inr (None, s)
      else if contains (ue_db s) ue_index
        then Inr (None, s)
      else Inr (Some ue_index,
        s\<lparr>ue_db := (ue_db s)(ue_index \<mapsto>
             \<lparr>ue_ctx = \<lparr>du_ue_index = ue_index, rnti = crnti, pcell_idx = cell_index\<rparr>,
              ctrl_loop = []\<rparr>),
          rnti_to_ue_index_map :=
            (rnti_to_ue_index_map s)[crnti mod MAX_NOF_UES c := ue_index]\<rparr>))"

definition find_ue ::
  "du_types \<Rightarrow> du_ue_index_t \<Rightarrow> mac_ctrl_component \<Rightarrow> error + mac_ue_context option" where
  "find_ue c ue_index s =
     (if \<not> ue_index < MAX_NOF_UES c then Inl (assertion_failure ''Invalid ue_index'')
      else Inr (case ue_db s ue_index of None \<Rightarrow> None | Some u \<Rightarrow> Some (ue_ctx u)))"

definition find_by_rnti ::
  "du_types \<Rightarrow> rnti_t \<Rightarrow> mac_ctrl_component \<Rightarrow> error + mac_ue_context option" where
  "find_by_rnti c r s =
     (if r = INVALID_RNTI c then Inl (assertion_failure ''Invalid rnti'')
      else let ue_index = rnti_to_ue_index_map s ! (r mod MAX_NOF_UES c)
           in if ue_index = MAX_NOF_UES c then Inr None else find_ue c ue_index s)"

text \<open>Scheduling on the control loop of the element at \<open>i\<close>, which the callers have found.\<close>

definition schedule_on_ue ::
  "du_ue_index_t \<Rightarrow> procedure \<Rightarrow> mac_ctrl_component \<Rightarrow> mac_ctrl_component" where
  "schedule_on_ue i p s =
     (case ue_db s i of
        None \<Rightarrow> s
      | Some u \<Rightarrow> s\<lparr>ue_db := (ue_db s)(i \<mapsto> u\<lparr>ctrl_loop := schedule p (ctrl_loop u)\<rparr>)\<rparr>)"

definition ue_create_request ::
  "du_types \<Rightarrow> mac_ue_create_request_message \<Rightarrow> mac_ctrl_component
     \<Rightarrow> error + mac_ctrl_component" where
  "ue_create_request c msg s =
     (case add_ue c (create_ue_index msg) (create_crnti msg) (create_cell_index msg) s of
        Inl e \<Rightarrow> Inl e
      | Inr (None, s1) \<Rightarrow>
          Inr (s1\<lparr>logger := logger s1 @
                    [proc_failure (create_ue_index msg) (create_crnti msg)
                       class_mac_ue_create_request_procedure ''Invalid parameters.''],
                  cfg_notifier := cfg_notifier s1 @
                    [on_ue_create_request_complete
                       \<lparr>create_resp_ue_index = create_ue_index msg,
                        create_resp_cell_index = create_cell_index msg,
                        create_resp_result = False\<rparr>]\<rparr>)
      | Inr (Some u, s1) \<Rightarrow>
          Inr (schedule_on_ue u (mac_ue_create_request_procedure msg) s1))"

definition ue_delete_request ::
  "mac_ue_delete_request_message \<Rightarrow> mac_ctrl_component \<Rightarrow> mac_ctrl_component" where
  "ue_delete_request msg s =
     (if \<not> contains (ue_db s) (delete_ue_index msg)
      then s\<lparr>logger := logger s @
                [proc_failure (delete_ue_index msg) (delete_rnti msg)
                   class_mac_ue_delete_procedure ''Inexistent ueId.''],
              cfg_notifier := cfg_notifier s @
                [on_ue_delete_complete
                   \<lparr>delete_resp_ue_index = delete_ue_index msg,
                    delete_resp_result = False\<rparr>]\<rparr>
      else schedule_on_ue (delete_ue_index msg) (mac_ue_delete_procedure msg) s)"

definition ue_reconfiguration_request ::
  "mac_ue_reconfiguration_request_message \<Rightarrow> mac_ctrl_component \<Rightarrow> mac_ctrl_component" where
  "ue_reconfiguration_request msg s =
     (if \<not> contains (ue_db s) (reconf_ue_index msg)
      then s\<lparr>logger := logger s @
                [proc_failure (reconf_ue_index msg) (reconf_crnti msg)
                   class_mac_ue_reconfiguration_procedure ''Inexistent ueId.''],
              cfg_notifier := cfg_notifier s @
                [on_ue_reconfiguration_complete
                   \<lparr>reconf_resp_ue_index = reconf_ue_index msg,
                    reconf_resp_result = False\<rparr>]\<rparr>
      else schedule_on_ue (reconf_ue_index msg) (mac_ue_reconfiguration_procedure msg) s)"

definition remove_ue ::
  "du_types \<Rightarrow> du_ue_index_t \<Rightarrow> mac_ctrl_component \<Rightarrow> error + mac_ctrl_component" where
  "remove_ue c ue_index s =
     (if \<not> ue_index < MAX_NOF_UES c then Inl (assertion_failure ''Invalid ueId'')
      else if \<not> contains (ue_db s) ue_index
        then Inr (s\<lparr>logger := logger s @ [warning ''Failed to find ueId'' ue_index]\<rparr>)
      else Inr (s\<lparr>logger := logger s @ [debug ''Scheduling ueId deletion'' ue_index],
                  main_ctrl_loop := main_ctrl_loop s @
                    [\<lparr>captured_ue_index = ue_index, resume_at = coro_begin\<rparr>]\<rparr>))"

subsection \<open>The deferred removal\<close>

text \<open>
  The body of the closure after its suspension point: the log line and \<open>ue_db.erase\<close>.
\<close>

definition erase_ue :: "du_ue_index_t \<Rightarrow> mac_ctrl_component \<Rightarrow> mac_ctrl_component" where
  "erase_ue i s =
     s\<lparr>logger := logger s @ [info ''Removing ueId'' i], ue_db := (ue_db s)(i := None)\<rparr>"

text \<open>
  One run of the closure from where it stands, up to its next suspension (\<open>Some\<close> of the
  suspended closure) or its return (\<open>None\<close>). From \<open>coro_begin\<close> it checks that the
  element is there (\<open>srsran_sanity_check\<close>) and awaits \<open>request_stop()\<close> of the element's
  control loop; it goes on to the erasure only when that suspension has resolved, and
  stays suspended otherwise. The suspension belongs to the control loop of the element,
  so a closure suspended on an element that is no longer there stays suspended.
\<close>

definition run_removal ::
  "removal_task \<Rightarrow> mac_ctrl_component \<Rightarrow> error + (removal_task option \<times> mac_ctrl_component)" where
  "run_removal t s =
     (case resume_at t of
        coro_begin \<Rightarrow>
          (case ue_db s (captured_ue_index t) of
             None \<Rightarrow> Inl (assertion_failure ''ueId was unexpectedly removed'')
           | Some u \<Rightarrow>
               if request_stop_resolved (ctrl_loop u)
               then Inr (None, erase_ue (captured_ue_index t) s)
               else Inr (Some (t\<lparr>resume_at := coro_await_stop\<rparr>), s))
      | coro_await_stop \<Rightarrow>
          (case ue_db s (captured_ue_index t) of
             None \<Rightarrow> Inr (Some t, s)
           | Some u \<Rightarrow>
               if request_stop_resolved (ctrl_loop u)
               then Inr (None, erase_ue (captured_ue_index t) s)
               else Inr (Some t, s)))"

text \<open>
  Modelled from the spec: the main control loop (its class is not among the sources) runs
  the closures scheduled on it one at a time, in order: the head runs, and leaves the
  loop when it returns.
\<close>

definition main_ctrl_loop_run :: "mac_ctrl_component \<Rightarrow> error + mac_ctrl_component" where
  "main_ctrl_loop_run s =
     (case main_ctrl_loop s of
        [] \<Rightarrow> Inr s
      | t # ts \<Rightarrow>
          (case run_removal t s of
             Inl e \<Rightarrow> Inl e
           | Inr (None, s1) \<Rightarrow> Inr (s1\<lparr>main_ctrl_loop := ts\<rparr>)
           | Inr (Some t1, s1) \<Rightarrow> Inr (s1\<lparr>main_ctrl_loop := t1 # ts\<rparr>)))"

text \<open>
  Modelled from the spec: the task in flight on the control loop of the element at \<open>i\<close>
  completes and leaves the loop.
\<close>

definition ue_task_complete :: "du_ue_index_t \<Rightarrow> mac_ctrl_component \<Rightarrow> mac_ctrl_component" where
  "ue_task_complete i s =
     (case ue_db s i of
        None \<Rightarrow> s
      | Some u \<Rightarrow> s\<lparr>ue_db := (ue_db s)(i \<mapsto> u\<lparr>ctrl_loop := tl (ctrl_loop u)\<rparr>)\<rparr>)"

text \<open>
  The moves of the component: a request arrives, a procedure calls \<open>remove_ue\<close>, a task
  of an element completes, the main control loop runs its head closure. A move that ends
  in a failed assertion has no successor state.
\<close>

inductive mac_step :: "du_types \<Rightarrow> mac_ctrl_component \<Rightarrow> mac_ctrl_component \<Rightarrow> bool"
  for c :: du_types where
  step_create: "ue_create_request c msg s = Inr s' \<Longrightarrow> mac_step c s s'"
| step_delete: "mac_step c s (ue_delete_request dmsg s)"
| step_reconfiguration: "mac_step c s (ue_reconfiguration_request rmsg s)"
| step_remove: "remove_ue c i s = Inr s' \<Longrightarrow> mac_step c s s'"
| step_task_complete: "mac_step c s (ue_task_complete i s)"
| step_main_loop: "main_ctrl_loop_run s = Inr s' \<Longrightarrow> mac_step c s s'"

inductive reachable :: "du_types \<Rightarrow> mac_ctrl_component \<Rightarrow> bool"
  for c :: du_types where
  reachable_init: "reachable c (mac_ctrl_component_init c)"
| reachable_step: "reachable c s \<Longrightarrow> mac_step c s s' \<Longrightarrow> reachable c s'"

subsection \<open>Conditions on the state\<close>

text \<open>
  The reverse index has \<open>MAX_NOF_UES\<close> slots, each holding an entity index or the mark
  \<open>MAX_NOF_UES\<close>.
\<close>

definition wf_state :: "du_types \<Rightarrow> mac_ctrl_component \<Rightarrow> bool" where
  "wf_state c s =
     (0 < MAX_NOF_UES c \<and> length (rnti_to_ue_index_map s) = MAX_NOF_UES c \<and>
      list_all (\<lambda>i. i \<le> MAX_NOF_UES c) (rnti_to_ue_index_map s))"

text \<open>The slot of the RNTI of every element in \<open>ue_db\<close> is taken.\<close>

definition live_slots_taken :: "du_types \<Rightarrow> mac_ctrl_component \<Rightarrow> bool" where
  "live_slots_taken c s =
     (\<forall>j u. ue_db s j = Some u \<longrightarrow>
        rnti_to_ue_index_map s ! (rnti (ue_ctx u) mod MAX_NOF_UES c) < MAX_NOF_UES c)"

subsection \<open>Example states\<close>

text \<open>
  The examples take 32 entities at most and 0 as the invalid RNTI. RNTI 17921 (0x4601)
  and RNTI 17953 (0x4621) fall into the same slot 1 of the reverse index.
\<close>

abbreviation example_types :: du_types where
  "example_types \<equiv> \<lparr>MAX_NOF_UES = 32, INVALID_RNTI = 0\<rparr>"

text \<open>The state after a create request for entity 0 with RNTI 17921 on the initial state.\<close>

abbreviation one_ue_state :: mac_ctrl_component where
  "one_ue_state \<equiv>
     \<lparr>ue_db = [0 \<mapsto> \<lparr>ue_ctx = \<lparr>du_ue_index = 0, rnti = 17921, pcell_idx = 0\<rparr>,
                      ctrl_loop = [mac_ue_create_request_procedure
                        \<lparr>create_ue_index = 0, create_crnti = 17921,
                         create_cell_index = 0\<rparr>]\<rparr>],
      rnti_to_ue_index_map = (replicate 32 32)[1 := 0],
      main_ctrl_loop = [],
      cfg_notifier = [],
      logger = []\<rparr>"

text \<open>
  The state after the create procedure of entity 0 has completed and \<open>remove_ue\<close> has
  been called for it.
\<close>

abbreviation removal_pending_state :: mac_ctrl_component where
  "removal_pending_state \<equiv>
     \<lparr>ue_db = [0 \<mapsto> \<lparr>ue_ctx = \<lparr>du_ue_index = 0, rnti = 17921, pcell_idx = 0\<rparr>,
                      ctrl_loop = []\<rparr>],
      rnti_to_ue_index_map = (replicate 32 32)[1 := 0],
      main_ctrl_loop = [\<lparr>captured_ue_index = 0, resume_at = coro_begin\<rparr>],
      cfg_notifier = [],
      logger = [debug ''Scheduling ueId deletion'' 0]\<rparr>"

text \<open>The state after the main control loop has run that removal.\<close>

abbreviation removed_state :: mac_ctrl_component where
  "removed_state \<equiv>
     \<lparr>ue_db = Map.empty,
      rnti_to_ue_index_map = (replicate 32 32)[1 := 0],
      main_ctrl_loop = [],
      cfg_notifier = [],
      logger = [debug ''Scheduling ueId deletion'' 0, info ''Removing ueId'' 0]\<rparr>"

text \<open>
  The state after a create request for entity 0 with RNTI 17922 on that state.
\<close>

abbreviation reused_index_state :: mac_ctrl_component where
  "reused_index_state \<equiv>
     \<lparr>ue_db = [0 \<mapsto> \<lparr>ue_ctx = \<lparr>du_ue_index = 0, rnti = 17922, pcell_idx = 0\<rparr>,
                      ctrl_loop = [mac_ue_create_request_procedure
                        \<lparr>create_ue_index = 0, create_crnti = 17922,
                         create_cell_index = 0\<rparr>]\<rparr>],
      rnti_to_ue_index_map = (replicate 32 32)[1 := 0, 2 := 0],
      main_ctrl_loop = [],
      cfg_notifier = [],
      logger = [debug ''Scheduling ueId deletion'' 0, info ''Removing ueId'' 0]\<rparr>"

section \<open>PDU session resource setup routine\<close>

text \<open>
  The test of the routine is among the sources; the routine and the test's notifiers are
  not. A request names the PDU sessions to set up; the response lists the sessions set
  up and the sessions that failed.
\<close>

type_synonym pdu_session_id_t = nat

record cu_cp_pdu_session_resource_setup_request =
  cu_cp_ue_id :: nat
  pdu_session_res_setup_items :: "pdu_session_id_t list"

record cu_cp_pdu_session_resource_setup_response =
  pdu_session_res_setup_response_items :: "pdu_session_id_t list"
  pdu_session_res_failed_to_setup_items :: "pdu_session_id_t list"

datatype collaborator_call =
  bearer_context_setup_request
| ue_context_modification_request
| bearer_context_modification_request
| rrc_reconfiguration_request

datatype routine_stage =
  await_bearer_context_setup
| await_ue_context_modification
| await_bearer_context_modification
| await_rrc_reconfiguration
| terminal

record pdu_session_resource_setup_routine =
  stage :: routine_stage
  request :: cu_cp_pdu_session_resource_setup_request
  response :: cu_cp_pdu_session_resource_setup_response
  calls :: "collaborator_call list"

text \<open>
  Modelled from the spec: \<open>start_pdu_session_resource_setup_routine\<close>, which is not among
  the sources. An empty request is ready at once with an empty response and no call made;
  any other request issues the bearer context setup and suspends.
\<close>

definition start_pdu_session_resource_setup_routine ::
  "cu_cp_pdu_session_resource_setup_request \<Rightarrow> pdu_session_resource_setup_routine" where
  "start_pdu_session_resource_setup_routine msg =
     (if pdu_session_res_setup_items msg = []
      then \<lparr>stage = terminal, request = msg,
            response = \<lparr>pdu_session_res_setup_response_items = [],
                        pdu_session_res_failed_to_setup_items = []\<rparr>,
            calls = []\<rparr>
      else \<lparr>stage = await_bearer_context_setup, request = msg,
            response = \<lparr>pdu_session_res_setup_response_items = [],
                        pdu_session_res_failed_to_setup_items = []\<rparr>,
            calls = [bearer_context_setup_request]\<rparr>)"

text \<open>
  Modelled from the spec: an abort puts the requested sessions into the failed list and
  ends the routine.
\<close>

definition abort_routine ::
  "pdu_session_resource_setup_routine \<Rightarrow> pdu_session_resource_setup_routine" where
  "abort_routine r =
     r\<lparr>stage := terminal,
       response := (response r)\<lparr>pdu_session_res_failed_to_setup_items :=
         pdu_session_res_failed_to_setup_items (response r) @
           pdu_session_res_setup_items (request r)\<rparr>\<rparr>"

definition issue_call ::
  "routine_stage \<Rightarrow> collaborator_call \<Rightarrow> pdu_session_resource_setup_routine
     \<Rightarrow> pdu_session_resource_setup_routine" where
  "issue_call st cl r = r\<lparr>stage := st, calls := calls r @ [cl]\<rparr>"

text \<open>
  Modelled from the spec: the routine resumed with the outcome of the call it awaits. The
  four stages follow in order; a rejected stage aborts; after the last stage the requested
  sessions go into the succeeded list; nothing runs after the terminal stage.
\<close>

fun resume_routine ::
  "routine_stage \<Rightarrow> bool \<Rightarrow> pdu_session_resource_setup_routine
     \<Rightarrow> pdu_session_resource_setup_routine" where
  "resume_routine await_bearer_context_setup ok r =
     (if ok then issue_call await_ue_context_modification ue_context_modification_request r
      else abort_routine r)"
| "resume_routine await_ue_context_modification ok r =
     (if ok then issue_call await_bearer_context_modification
                   bearer_context_modification_request r
      else abort_routine r)"
| "resume_routine await_bearer_context_modification ok r =
     (if ok then issue_call await_rrc_reconfiguration rrc_reconfiguration_request r
      else abort_routine r)"
| "resume_routine await_rrc_reconfiguration ok r =
     (if ok
      then r\<lparr>stage := terminal,
             response := (response r)\<lparr>pdu_session_res_setup_response_items :=
               pdu_session_res_setup_response_items (response r) @
                 pdu_session_res_setup_items (request r)\<rparr>\<rparr>
      else abort_routine r)"
| "resume_routine terminal ok r = r"

text \<open>
  The outcomes the test sets on its notifiers with \<open>set_..._outcome\<close>; each notifier
  answers the call made to it with the outcome set, at once.
\<close>

record notifier_outcomes =
  bearer_context_setup_outcome :: bool
  ue_context_modification_outcome :: bool
  bearer_context_modification_outcome :: bool
  rrc_reconfiguration_outcome :: bool

fun outcome_of :: "notifier_outcomes \<Rightarrow> routine_stage \<Rightarrow> bool" where
  "outcome_of os await_bearer_context_setup = bearer_context_setup_outcome os"
| "outcome_of os await_ue_context_modification = ue_context_modification_outcome os"
| "outcome_of os await_bearer_context_modification = bearer_context_modification_outcome os"
| "outcome_of os await_rrc_reconfiguration = rrc_reconfiguration_outcome os"
| "outcome_of os terminal = False"

definition answer ::
  "notifier_outcomes \<Rightarrow> pdu_session_resource_setup_routine
     \<Rightarrow> pdu_session_resource_setup_routine" where
  "answer os r = resume_routine (stage r) (outcome_of os (stage r)) r"

text \<open>
  \<open>start_procedure\<close> of the test fixture: the outcomes are set, the routine is started and
  launched; with notifiers that answer at once the routine runs through every answer it
  awaits, at most one for each of the four stages.
\<close>

definition start_procedure ::
  "cu_cp_pdu_session_resource_setup_request \<Rightarrow> bool \<Rightarrow> bool \<Rightarrow> bool \<Rightarrow> bool
     \<Rightarrow> pdu_session_resource_setup_routine" where
  "start_procedure msg bearer_context_setup_outcome' ue_context_modification_outcome'
       bearer_context_modification_outcome' rrc_reconfiguration_outcome' =
     (let os = \<lparr>bearer_context_setup_outcome = bearer_context_setup_outcome',
                ue_context_modification_outcome = ue_context_modification_outcome',
                bearer_context_modification_outcome = bearer_context_modification_outcome',
                rrc_reconfiguration_outcome = rrc_reconfiguration_outcome'\<rparr>
      in answer os (answer os (answer os (answer os
           (start_pdu_session_resource_setup_routine msg)))))"

definition ready :: "pdu_session_resource_setup_routine \<Rightarrow> bool" where
  "ready t = (stage t = terminal)"

text \<open>The predicate of the test fixture, as the test defines it.\<close>

definition was_pdu_session_resource_setup_successful ::
  "pdu_session_resource_setup_routine \<Rightarrow> bool" where
  "was_pdu_session_resource_setup_successful t =
     (if \<not> ready t then False
      else if length (pdu_session_res_failed_to_setup_items (response t)) > 0 then False
      else length (pdu_session_res_setup_response_items (response t)) > 0)"

section \<open>Properties of the MAC control component\<close>

subsection \<open>What the moves of the component maintain\<close>

lemma wf_state_slot:
  "wf_state c s \<Longrightarrow> r mod MAX_NOF_UES c < length (rnti_to_ue_index_map s)"
  by (simp add: wf_state_def)

lemma wf_state_entry:
  "wf_state c s \<Longrightarrow> k < MAX_NOF_UES c \<Longrightarrow> rnti_to_ue_index_map s ! k \<le> MAX_NOF_UES c"
  by (simp add: wf_state_def list_all_length)

lemma wf_state_init: "0 < MAX_NOF_UES c \<Longrightarrow> wf_state c (mac_ctrl_component_init c)"
  by (simp add: wf_state_def mac_ctrl_component_init_def list_all_iff)

lemma add_ue_cases:
  "add_ue c i r cell s = Inr (h, s') \<Longrightarrow>
   (h = None \<and> s' = s) \<or>
   (h = Some i \<and> i < MAX_NOF_UES c \<and>
    s' = s\<lparr>ue_db := (ue_db s)(i \<mapsto>
             \<lparr>ue_ctx = \<lparr>du_ue_index = i, rnti = r, pcell_idx = cell\<rparr>, ctrl_loop = []\<rparr>),
          rnti_to_ue_index_map := (rnti_to_ue_index_map s)[r mod MAX_NOF_UES c := i]\<rparr>)"
  by (auto simp: add_ue_def split: if_splits)

lemma wf_state_add_ue:
  assumes "wf_state c s" and "add_ue c i r cell s = Inr (h, s')"
  shows "wf_state c s'"
proof -
  from add_ue_cases [OF assms(2)] show ?thesis
  proof
    assume "h = None \<and> s' = s"
    with assms(1) show ?thesis by simp
  next
    assume a: "h = Some i \<and> i < MAX_NOF_UES c \<and>
      s' = s\<lparr>ue_db := (ue_db s)(i \<mapsto>
             \<lparr>ue_ctx = \<lparr>du_ue_index = i, rnti = r, pcell_idx = cell\<rparr>, ctrl_loop = []\<rparr>),
          rnti_to_ue_index_map := (rnti_to_ue_index_map s)[r mod MAX_NOF_UES c := i]\<rparr>"
    with assms(1) show ?thesis
      by (auto simp: wf_state_def list_all_length nth_list_update)
  qed
qed

lemma wf_state_only_map:
  "rnti_to_ue_index_map s' = rnti_to_ue_index_map s \<Longrightarrow> wf_state c s' = wf_state c s"
  by (simp add: wf_state_def)

lemma schedule_on_ue_map [simp]:
  "rnti_to_ue_index_map (schedule_on_ue i p s) = rnti_to_ue_index_map s"
  by (simp add: schedule_on_ue_def split: option.splits)

lemma ue_create_request_add_ue:
  "ue_create_request c msg s = Inr s' \<Longrightarrow>
   \<exists>h s1. add_ue c (create_ue_index msg) (create_crnti msg) (create_cell_index msg) s
            = Inr (h, s1) \<and>
          rnti_to_ue_index_map s' = rnti_to_ue_index_map s1"
  unfolding ue_create_request_def
  by (cases "add_ue c (create_ue_index msg) (create_crnti msg) (create_cell_index msg) s")
     (auto split: option.splits)

lemma ue_create_request_map:
  assumes "ue_create_request c msg s = Inr s'" and "wf_state c s"
  shows "wf_state c s'"
proof -
  from ue_create_request_add_ue [OF assms(1)] obtain h s1 where
    a: "add_ue c (create_ue_index msg) (create_crnti msg) (create_cell_index msg) s
          = Inr (h, s1)"
    and m: "rnti_to_ue_index_map s' = rnti_to_ue_index_map s1" by blast
  from wf_state_add_ue [OF assms(2) a] have "wf_state c s1" .
  with m show ?thesis by (simp add: wf_state_def)
qed

lemma run_removal_map:
  "run_removal t s = Inr (t', s') \<Longrightarrow> rnti_to_ue_index_map s' = rnti_to_ue_index_map s"
  by (auto simp: run_removal_def erase_ue_def split: coro_point.splits option.splits if_splits)

lemma main_ctrl_loop_run_map:
  "main_ctrl_loop_run s = Inr s' \<Longrightarrow> rnti_to_ue_index_map s' = rnti_to_ue_index_map s"
  unfolding main_ctrl_loop_run_def
  by (auto split: list.splits sum.splits option.splits dest!: run_removal_map)

lemma mac_step_wf: "mac_step c s s' \<Longrightarrow> wf_state c s \<Longrightarrow> wf_state c s'"
proof (induction rule: mac_step.induct)
  case (step_create msg s s')
  then show ?case by (rule ue_create_request_map)
next
  case (step_delete s dmsg)
  then show ?case by (simp add: ue_delete_request_def wf_state_def)
next
  case (step_reconfiguration s rmsg)
  then show ?case by (simp add: ue_reconfiguration_request_def wf_state_def)
next
  case (step_remove i s s')
  then show ?case by (auto simp: remove_ue_def wf_state_def split: if_splits)
next
  case (step_task_complete s i)
  then show ?case by (simp add: ue_task_complete_def wf_state_def split: option.splits)
next
  case (step_main_loop s s')
  then show ?case by (simp add: main_ctrl_loop_run_map wf_state_only_map [of s' s])
qed

lemma reachable_wf: "reachable c s \<Longrightarrow> 0 < MAX_NOF_UES c \<Longrightarrow> wf_state c s"
proof (induction rule: reachable.induct)
  case reachable_init
  then show ?case by (rule wf_state_init)
next
  case (reachable_step s s')
  then show ?case using mac_step_wf by blast
qed

lemma live_slots_taken_add_ue:
  assumes w: "wf_state c s" and l: "live_slots_taken c s"
    and a: "add_ue c i r cell s = Inr (h, s')"
  shows "live_slots_taken c s'"
proof -
  from add_ue_cases [OF a] show ?thesis
  proof
    assume "h = None \<and> s' = s"
    with l show ?thesis by simp
  next
    assume b: "h = Some i \<and> i < MAX_NOF_UES c \<and>
      s' = s\<lparr>ue_db := (ue_db s)(i \<mapsto>
             \<lparr>ue_ctx = \<lparr>du_ue_index = i, rnti = r, pcell_idx = cell\<rparr>, ctrl_loop = []\<rparr>),
          rnti_to_ue_index_map := (rnti_to_ue_index_map s)[r mod MAX_NOF_UES c := i]\<rparr>"
    have len: "length (rnti_to_ue_index_map s) = MAX_NOF_UES c" and pos: "0 < MAX_NOF_UES c"
      using w by (simp_all add: wf_state_def)
    show ?thesis
      unfolding live_slots_taken_def
    proof (intro allI impI)
      fix j u assume ju: "ue_db s' j = Some u"
      let ?k = "rnti (ue_ctx u) mod MAX_NOF_UES c"
      have k: "?k < length (rnti_to_ue_index_map s)" using len pos by simp
      show "rnti_to_ue_index_map s' ! ?k < MAX_NOF_UES c"
      proof (cases "?k = r mod MAX_NOF_UES c")
        case True
        with b k show ?thesis by simp
      next
        case False
        with b ju have "j \<noteq> i" by auto
        with b ju have "ue_db s j = Some u" by simp
        with l have "rnti_to_ue_index_map s ! ?k < MAX_NOF_UES c"
          by (simp add: live_slots_taken_def)
        with b False show ?thesis by simp
      qed
    qed
  qed
qed

lemma live_slots_takenD:
  "live_slots_taken c s \<Longrightarrow> ue_db s j = Some u \<Longrightarrow>
   rnti_to_ue_index_map s ! (rnti (ue_ctx u) mod MAX_NOF_UES c) < MAX_NOF_UES c"
  unfolding live_slots_taken_def by blast

lemma live_slots_taken_ctrl_loop:
  assumes l: "live_slots_taken c s" and e: "ue_db s i = Some e"
  shows "live_slots_taken c (s\<lparr>ue_db := (ue_db s)(i \<mapsto> e\<lparr>ctrl_loop := q\<rparr>)\<rparr>)"
  unfolding live_slots_taken_def
proof (intro allI impI)
  fix j u
  assume ju: "ue_db (s\<lparr>ue_db := (ue_db s)(i \<mapsto> e\<lparr>ctrl_loop := q\<rparr>)\<rparr>) j = Some u"
  show "rnti_to_ue_index_map (s\<lparr>ue_db := (ue_db s)(i \<mapsto> e\<lparr>ctrl_loop := q\<rparr>)\<rparr>) !
          (rnti (ue_ctx u) mod MAX_NOF_UES c) < MAX_NOF_UES c"
  proof (cases "j = i")
    case True
    with ju have "ue_ctx u = ue_ctx e" by auto
    with live_slots_takenD [OF l e] show ?thesis by simp
  next
    case False
    with ju have "ue_db s j = Some u" by simp
    with live_slots_takenD [OF l] show ?thesis by simp
  qed
qed

lemma live_slots_taken_schedule_on_ue:
  assumes l: "live_slots_taken c s"
  shows "live_slots_taken c (schedule_on_ue i p s)"
proof (cases "ue_db s i")
  case None
  with l show ?thesis by (simp add: schedule_on_ue_def)
next
  case (Some e)
  with live_slots_taken_ctrl_loop [OF l Some] show ?thesis by (simp add: schedule_on_ue_def)
qed

lemma live_slots_taken_other_fields [simp]:
  "live_slots_taken c (s\<lparr>logger := l\<rparr>) = live_slots_taken c s"
  "live_slots_taken c (s\<lparr>cfg_notifier := n\<rparr>) = live_slots_taken c s"
  "live_slots_taken c (s\<lparr>main_ctrl_loop := m\<rparr>) = live_slots_taken c s"
  by (simp_all add: live_slots_taken_def)

lemma ue_create_request_cases:
  assumes "ue_create_request c msg s = Inr s'"
  shows "(\<exists>s1. add_ue c (create_ue_index msg) (create_crnti msg) (create_cell_index msg) s
                = Inr (None, s1) \<and>
              s' = s1\<lparr>logger := logger s1 @
                        [proc_failure (create_ue_index msg) (create_crnti msg)
                           class_mac_ue_create_request_procedure ''Invalid parameters.''],
                      cfg_notifier := cfg_notifier s1 @
                        [on_ue_create_request_complete
                           \<lparr>create_resp_ue_index = create_ue_index msg,
                            create_resp_cell_index = create_cell_index msg,
                            create_resp_result = False\<rparr>]\<rparr>) \<or>
         (\<exists>u s1. add_ue c (create_ue_index msg) (create_crnti msg) (create_cell_index msg) s
                = Inr (Some u, s1) \<and>
              s' = schedule_on_ue u (mac_ue_create_request_procedure msg) s1)"
proof (cases "add_ue c (create_ue_index msg) (create_crnti msg) (create_cell_index msg) s")
  case (Inl e)
  with assms show ?thesis by (simp add: ue_create_request_def)
next
  case (Inr p)
  obtain h s1 where p: "p = (h, s1)" by (cases p)
  show ?thesis
  proof (cases h)
    case None
    with Inr p assms show ?thesis by (simp add: ue_create_request_def)
  next
    case (Some u)
    with Inr p assms show ?thesis by (simp add: ue_create_request_def)
  qed
qed

lemma live_slots_taken_ue_create_request:
  assumes r: "ue_create_request c msg s = Inr s'" and w: "wf_state c s"
    and l: "live_slots_taken c s"
  shows "live_slots_taken c s'"
proof -
  from ue_create_request_cases [OF r] show ?thesis
  proof (elim disjE exE conjE)
    fix s1
    assume a: "add_ue c (create_ue_index msg) (create_crnti msg) (create_cell_index msg) s
                = Inr (None, s1)"
      and s': "s' = s1\<lparr>logger := logger s1 @
                        [proc_failure (create_ue_index msg) (create_crnti msg)
                           class_mac_ue_create_request_procedure ''Invalid parameters.''],
                      cfg_notifier := cfg_notifier s1 @
                        [on_ue_create_request_complete
                           \<lparr>create_resp_ue_index = create_ue_index msg,
                            create_resp_cell_index = create_cell_index msg,
                            create_resp_result = False\<rparr>]\<rparr>"
    have "live_slots_taken c s1" by (rule live_slots_taken_add_ue [OF w l a])
    with s' show ?thesis by (simp add: live_slots_taken_def)
  next
    fix u s1
    assume a: "add_ue c (create_ue_index msg) (create_crnti msg) (create_cell_index msg) s
                = Inr (Some u, s1)"
      and s': "s' = schedule_on_ue u (mac_ue_create_request_procedure msg) s1"
    have "live_slots_taken c s1" by (rule live_slots_taken_add_ue [OF w l a])
    with s' show ?thesis by (simp add: live_slots_taken_schedule_on_ue)
  qed
qed

lemma live_slots_taken_erase_ue:
  "live_slots_taken c s \<Longrightarrow> live_slots_taken c (erase_ue i s)"
  by (simp add: live_slots_taken_def erase_ue_def)

lemma run_removal_cases:
  "run_removal t s = Inr (t', s') \<Longrightarrow> s' = s \<or> s' = erase_ue (captured_ue_index t) s"
  unfolding run_removal_def
  by (cases "resume_at t"; cases "ue_db s (captured_ue_index t)") (auto split: if_splits)

lemma main_ctrl_loop_run_cases:
  assumes "main_ctrl_loop_run s = Inr s'"
  shows "\<exists>s1 l. s' = s1\<lparr>main_ctrl_loop := l\<rparr> \<and>
           (s1 = s \<or> (\<exists>t ts. main_ctrl_loop s = t # ts \<and> s1 = erase_ue (captured_ue_index t) s))"
proof (cases "main_ctrl_loop s")
  case Nil
  with assms have "s' = s\<lparr>main_ctrl_loop := []\<rparr>" by (simp add: main_ctrl_loop_run_def)
  then show ?thesis by blast
next
  case (Cons t ts)
  show ?thesis
  proof (cases "run_removal t s")
    case (Inl e)
    with Cons assms show ?thesis by (simp add: main_ctrl_loop_run_def)
  next
    case (Inr p)
    obtain t' s1 where p: "p = (t', s1)" by (cases p)
    from Inr p have c: "s1 = s \<or> s1 = erase_ue (captured_ue_index t) s"
      using run_removal_cases by blast
    from Cons Inr p assms have "\<exists>l. s' = s1\<lparr>main_ctrl_loop := l\<rparr>"
      by (cases t') (auto simp: main_ctrl_loop_run_def)
    with c Cons show ?thesis by blast
  qed
qed

lemma live_slots_taken_main_ctrl_loop_run:
  assumes "main_ctrl_loop_run s = Inr s'" and "live_slots_taken c s"
  shows "live_slots_taken c s'"
proof -
  from main_ctrl_loop_run_cases [OF assms(1)] obtain s1 l where
    s': "s' = s1\<lparr>main_ctrl_loop := l\<rparr>" and
    c: "s1 = s \<or> (\<exists>t ts. main_ctrl_loop s = t # ts \<and> s1 = erase_ue (captured_ue_index t) s)"
    by blast
  from c assms(2) have "live_slots_taken c s1"
    using live_slots_taken_erase_ue by blast
  with s' show ?thesis by (simp add: live_slots_taken_def)
qed

lemma live_slots_taken_ue_task_complete:
  assumes l: "live_slots_taken c s"
  shows "live_slots_taken c (ue_task_complete i s)"
proof (cases "ue_db s i")
  case None
  with l show ?thesis by (simp add: ue_task_complete_def)
next
  case (Some e)
  with live_slots_taken_ctrl_loop [OF l Some] show ?thesis by (simp add: ue_task_complete_def)
qed

lemma mac_step_live_slots_taken:
  "mac_step c s s' \<Longrightarrow> wf_state c s \<Longrightarrow> live_slots_taken c s \<Longrightarrow> live_slots_taken c s'"
proof (induction rule: mac_step.induct)
  case (step_create msg s s')
  then show ?case by (rule live_slots_taken_ue_create_request)
next
  case (step_delete s dmsg)
  then show ?case
    by (cases "contains (ue_db s) (delete_ue_index dmsg)")
       (simp_all add: ue_delete_request_def live_slots_taken_schedule_on_ue)
next
  case (step_reconfiguration s rmsg)
  then show ?case
    by (cases "contains (ue_db s) (reconf_ue_index rmsg)")
       (simp_all add: ue_reconfiguration_request_def live_slots_taken_schedule_on_ue)
next
  case (step_remove i s s')
  then show ?case
    by (cases "i < MAX_NOF_UES c"; cases "contains (ue_db s) i")
       (auto simp: remove_ue_def)
next
  case (step_task_complete s i)
  from step_task_complete(2) show ?case by (rule live_slots_taken_ue_task_complete)
next
  case (step_main_loop s s')
  from step_main_loop(1,3) show ?case by (rule live_slots_taken_main_ctrl_loop_run)
qed

lemma reachable_invariants:
  "reachable c s \<Longrightarrow> 0 < MAX_NOF_UES c \<Longrightarrow> wf_state c s \<and> live_slots_taken c s"
proof (induction rule: reachable.induct)
  case reachable_init
  then show ?case
    by (simp add: wf_state_init) (simp add: live_slots_taken_def mac_ctrl_component_init_def)
next
  case (reachable_step s s')
  then show ?case using mac_step_wf mac_step_live_slots_taken by blast
qed

subsection \<open>The reverse index\<close>

lemma find_by_rnti_eq:
  assumes w: "wf_state c s" and r: "r \<noteq> INVALID_RNTI c"
  shows "find_by_rnti c r s =
           Inr (if rnti_to_ue_index_map s ! (r mod MAX_NOF_UES c) < MAX_NOF_UES c
                then (case ue_db s (rnti_to_ue_index_map s ! (r mod MAX_NOF_UES c)) of
                        None \<Rightarrow> None | Some u \<Rightarrow> Some (ue_ctx u))
                else None)"
proof -
  have pos: "0 < MAX_NOF_UES c" using w by (simp add: wf_state_def)
  then have "r mod MAX_NOF_UES c < MAX_NOF_UES c" by simp
  from wf_state_entry [OF w this]
  have "rnti_to_ue_index_map s ! (r mod MAX_NOF_UES c) \<le> MAX_NOF_UES c" .
  with r show ?thesis by (auto simp: find_by_rnti_def find_ue_def Let_def)
qed

subsection \<open>Which moves take an element out of the registry\<close>

lemma schedule_on_ue_keeps:
  "(ue_db (schedule_on_ue i p s) j = None) = (ue_db s j = None)"
  by (cases "ue_db s i") (simp_all add: schedule_on_ue_def)

lemma ue_task_complete_keeps:
  "(ue_db (ue_task_complete i s) j = None) = (ue_db s j = None)"
  by (cases "ue_db s i") (simp_all add: ue_task_complete_def)

lemma add_ue_keeps:
  assumes "add_ue c i r cell s = Inr (h, s')" and "ue_db s' j = None"
  shows "ue_db s j = None"
  using add_ue_cases [OF assms(1)] assms(2) by (auto split: if_splits)

lemma ue_create_request_keeps:
  assumes r: "ue_create_request c msg s = Inr s'" and n: "ue_db s' j = None"
  shows "ue_db s j = None"
proof -
  from ue_create_request_cases [OF r] show ?thesis
  proof (elim disjE exE conjE)
    fix s1
    assume a: "add_ue c (create_ue_index msg) (create_crnti msg) (create_cell_index msg) s
                = Inr (None, s1)"
      and s': "s' = s1\<lparr>logger := logger s1 @
                        [proc_failure (create_ue_index msg) (create_crnti msg)
                           class_mac_ue_create_request_procedure ''Invalid parameters.''],
                      cfg_notifier := cfg_notifier s1 @
                        [on_ue_create_request_complete
                           \<lparr>create_resp_ue_index = create_ue_index msg,
                            create_resp_cell_index = create_cell_index msg,
                            create_resp_result = False\<rparr>]\<rparr>"
    from s' n have "ue_db s1 j = None" by simp
    with a show ?thesis by (rule add_ue_keeps)
  next
    fix u s1
    assume a: "add_ue c (create_ue_index msg) (create_crnti msg) (create_cell_index msg) s
                = Inr (Some u, s1)"
      and s': "s' = schedule_on_ue u (mac_ue_create_request_procedure msg) s1"
    from s' n have "ue_db s1 j = None" by (simp add: schedule_on_ue_keeps)
    with a show ?thesis by (rule add_ue_keeps)
  qed
qed

lemma remove_ue_keeps:
  "remove_ue c i s = Inr s' \<Longrightarrow> ue_db s' = ue_db s"
  by (cases "i < MAX_NOF_UES c"; cases "contains (ue_db s) i") (auto simp: remove_ue_def)

lemma run_removal_erases:
  assumes run: "run_removal t s = Inr (t', s')"
    and live: "ue_db s i = Some u" and gone: "ue_db s' i = None"
  shows "captured_ue_index t = i \<and> request_stop_resolved (ctrl_loop u) \<and> t' = None \<and>
         s' = erase_ue i s"
proof (cases "ue_db s (captured_ue_index t)")
  case None
  with run live gone show ?thesis
    by (cases "resume_at t") (auto simp: run_removal_def)
next
  case (Some e)
  show ?thesis
  proof (cases "request_stop_resolved (ctrl_loop e)")
    case True
    with Some run have s': "s' = erase_ue (captured_ue_index t) s" and t': "t' = None"
      by (cases "resume_at t"; simp add: run_removal_def)+
    from s' live gone have "captured_ue_index t = i"
      by (auto simp: erase_ue_def split: if_splits)
    with s' t' Some live True show ?thesis by simp
  next
    case False
    with Some run have "s' = s" by (cases "resume_at t") (auto simp: run_removal_def)
    with live gone show ?thesis by simp
  qed
qed

subsection \<open>The example states\<close>

lemma one_ue_state_created:
  "ue_create_request example_types
     \<lparr>create_ue_index = 0, create_crnti = 17921, create_cell_index = 0\<rparr>
     (mac_ctrl_component_init example_types) = Inr one_ue_state"
  by (simp add: ue_create_request_def add_ue_def mac_ctrl_component_init_def contains_def
      schedule_on_ue_def schedule_def)

lemma one_ue_state_reachable: "reachable example_types one_ue_state"
  by (rule reachable_step [OF reachable_init step_create [OF one_ue_state_created]])

lemma one_ue_state_invariants:
  "wf_state example_types one_ue_state \<and> live_slots_taken example_types one_ue_state"
  using reachable_invariants [OF one_ue_state_reachable] by simp

lemma removal_pending_state_scheduled:
  "remove_ue example_types 0 (ue_task_complete 0 one_ue_state) = Inr removal_pending_state"
  by (simp add: remove_ue_def ue_task_complete_def contains_def)

lemma removal_pending_state_run:
  "main_ctrl_loop_run removal_pending_state = Inr removed_state"
  by (simp add: main_ctrl_loop_run_def run_removal_def request_stop_resolved_def drained_def
      erase_ue_def)

lemma removed_state_reachable: "reachable example_types removed_state"
  by (rule reachable_step [OF reachable_step [OF reachable_step [OF one_ue_state_reachable
        step_task_complete [of example_types one_ue_state 0]]
        step_remove [OF removal_pending_state_scheduled]]
        step_main_loop [OF removal_pending_state_run]])

subsection \<open>Requests that are refused\<close>




text \<open>
  C5. A delete request for an entity index that holds no element hands the result sink
  one response with that index and \<open>result = false\<close>, writes one line to the log,
  schedules nothing, and leaves the registry and the reverse index as they are.
\<close>

theorem ue_delete_request_inexistent:
  "\<not> contains (ue_db s) (delete_ue_index msg) \<Longrightarrow>
   ue_delete_request msg s =
     s\<lparr>logger := logger s @
          [proc_failure (delete_ue_index msg) (delete_rnti msg)
             class_mac_ue_delete_procedure ''Inexistent ueId.''],
       cfg_notifier := cfg_notifier s @
          [on_ue_delete_complete
             \<lparr>delete_resp_ue_index = delete_ue_index msg, delete_resp_result = False\<rparr>]\<rparr> \<and>
   ue_db (ue_delete_request msg s) = ue_db s \<and>
   rnti_to_ue_index_map (ue_delete_request msg s) = rnti_to_ue_index_map s \<and>
   main_ctrl_loop (ue_delete_request msg s) = main_ctrl_loop s"
  by (simp add: ue_delete_request_def)

theorem ue_delete_request_inexistent_witness:
  "\<not> contains (ue_db one_ue_state) 5 \<and>
   cfg_notifier (ue_delete_request \<lparr>delete_ue_index = 5, delete_rnti = 17925\<rparr> one_ue_state) =
     [on_ue_delete_complete \<lparr>delete_resp_ue_index = 5, delete_resp_result = False\<rparr>] \<and>
   ue_db (ue_delete_request \<lparr>delete_ue_index = 5, delete_rnti = 17925\<rparr> one_ue_state) =
     ue_db one_ue_state"
  using ue_delete_request_inexistent [of one_ue_state "\<lparr>delete_ue_index = 5, delete_rnti = 17925\<rparr>"]
  by (simp add: contains_def)

text \<open>
  C6. A reconfiguration request for an entity index that holds no element hands the
  result sink one response with that index and \<open>result = false\<close>, writes one line to the
  log, schedules nothing, and leaves the registry and the reverse index as they are.
\<close>

theorem ue_reconfiguration_request_inexistent:
  "\<not> contains (ue_db s) (reconf_ue_index msg) \<Longrightarrow>
   ue_reconfiguration_request msg s =
     s\<lparr>logger := logger s @
          [proc_failure (reconf_ue_index msg) (reconf_crnti msg)
             class_mac_ue_reconfiguration_procedure ''Inexistent ueId.''],
       cfg_notifier := cfg_notifier s @
          [on_ue_reconfiguration_complete
             \<lparr>reconf_resp_ue_index = reconf_ue_index msg, reconf_resp_result = False\<rparr>]\<rparr> \<and>
   ue_db (ue_reconfiguration_request msg s) = ue_db s \<and>
   rnti_to_ue_index_map (ue_reconfiguration_request msg s) = rnti_to_ue_index_map s \<and>
   main_ctrl_loop (ue_reconfiguration_request msg s) = main_ctrl_loop s"
  by (simp add: ue_reconfiguration_request_def)

theorem ue_reconfiguration_request_inexistent_witness:
  "\<not> contains (ue_db one_ue_state) 5 \<and>
   cfg_notifier (ue_reconfiguration_request \<lparr>reconf_ue_index = 5, reconf_crnti = 17925\<rparr>
      one_ue_state) =
     [on_ue_reconfiguration_complete
        \<lparr>reconf_resp_ue_index = 5, reconf_resp_result = False\<rparr>] \<and>
   ue_db (ue_reconfiguration_request \<lparr>reconf_ue_index = 5, reconf_crnti = 17925\<rparr>
      one_ue_state) = ue_db one_ue_state"
  using ue_reconfiguration_request_inexistent [of one_ue_state "\<lparr>reconf_ue_index = 5, reconf_crnti = 17925\<rparr>"]
  by (simp add: contains_def)

text \<open>
  C10. \<open>remove_ue\<close> with an entity index below \<open>MAX_NOF_UES\<close> that holds no element
  returns without a failed assertion; it writes a warning to the log and changes nothing
  else: no closure goes on the main control loop, and the registry and the reverse index
  stay as they are.
\<close>

theorem remove_ue_inexistent:
  "i < MAX_NOF_UES c \<Longrightarrow> \<not> contains (ue_db s) i \<Longrightarrow>
   remove_ue c i s = Inr (s\<lparr>logger := logger s @ [warning ''Failed to find ueId'' i]\<rparr>)"
  by (simp add: remove_ue_def)

theorem remove_ue_inexistent_witness:
  "5 < MAX_NOF_UES example_types \<and> \<not> contains (ue_db one_ue_state) 5 \<and>
   remove_ue example_types 5 one_ue_state =
     Inr (one_ue_state\<lparr>logger := [warning ''Failed to find ueId'' 5]\<rparr>)"
  using remove_ue_inexistent [of 5 example_types one_ue_state]
  by (simp add: contains_def)

subsection \<open>Adding and finding\<close>

text \<open>
  C4, at two inputs where \<open>add_ue\<close> returns null for a radio identifier that no live
  entity has and an entity index that is free. After entity 0 with RNTI 17921 was
  created and removed the registry is empty, yet \<open>add_ue\<close> for index 1 and RNTI 17921
  returns null and changes nothing: the closure of \<open>remove_ue\<close> erased the element and
  left slot 1 of the reverse index as it was, so the reverse index is not adjusted on a
  delete. And while entity 0 is the only element, \<open>add_ue\<close> for index 1 and RNTI 17953
  returns null: the two RNTIs share slot 1, and the branch taken is the one for an RNTI
  that already exists.
\<close>

theorem add_ue_refuses_free_rnti:
  "ue_create_request example_types
     \<lparr>create_ue_index = 0, create_crnti = 17921, create_cell_index = 0\<rparr>
     (mac_ctrl_component_init example_types) = Inr one_ue_state \<and>
   remove_ue example_types 0 (ue_task_complete 0 one_ue_state) = Inr removal_pending_state \<and>
   main_ctrl_loop_run removal_pending_state = Inr removed_state \<and>
   ue_db removed_state = Map.empty \<and>
   rnti_to_ue_index_map removed_state ! (17921 mod 32) = 0 \<and>
   add_ue example_types 1 17921 0 removed_state = Inr (None, removed_state) \<and>
   dom (ue_db one_ue_state) = {0} \<and>
   rnti (ue_ctx (the (ue_db one_ue_state 0))) = 17921 \<and>
   add_ue example_types 1 17953 0 one_ue_state = Inr (None, one_ue_state)"
  by (simp add: ue_create_request_def add_ue_def mac_ctrl_component_init_def contains_def
      schedule_on_ue_def schedule_def remove_ue_def ue_task_complete_def
      main_ctrl_loop_run_def run_removal_def request_stop_resolved_def drained_def
      erase_ue_def)

text \<open>
  C7, at two inputs where \<open>find_by_rnti\<close> returns an entity that was not created with
  the radio identifier asked for. After entity 0 with RNTI 17921 was created and removed,
  and entity index 0 was taken again by a create request with RNTI 17922,
  \<open>find_by_rnti\<close> answers 17921, whose entity has been removed, with the context of the
  new entity: slot 1 of the reverse index still holds index 0. And while the entity of
  RNTI 17921 is the only element, \<open>find_by_rnti\<close> answers 17953, with which no entity
  was created, with the context of that entity: the two RNTIs share slot 1.
\<close>

theorem find_by_rnti_finds_other_entity:
  "ue_create_request example_types
     \<lparr>create_ue_index = 0, create_crnti = 17921, create_cell_index = 0\<rparr>
     (mac_ctrl_component_init example_types) = Inr one_ue_state \<and>
   remove_ue example_types 0 (ue_task_complete 0 one_ue_state) = Inr removal_pending_state \<and>
   main_ctrl_loop_run removal_pending_state = Inr removed_state \<and>
   find_by_rnti example_types 17921 removed_state = Inr None \<and>
   ue_create_request example_types
     \<lparr>create_ue_index = 0, create_crnti = 17922, create_cell_index = 0\<rparr>
     removed_state = Inr reused_index_state \<and>
   find_by_rnti example_types 17921 reused_index_state =
     Inr (Some \<lparr>du_ue_index = 0, rnti = 17922, pcell_idx = 0\<rparr>) \<and>
   dom (ue_db one_ue_state) = {0} \<and>
   find_by_rnti example_types 17953 one_ue_state =
     Inr (Some \<lparr>du_ue_index = 0, rnti = 17921, pcell_idx = 0\<rparr>)"
  by (simp add: ue_create_request_def add_ue_def mac_ctrl_component_init_def contains_def
      schedule_on_ue_def schedule_def remove_ue_def ue_task_complete_def
      main_ctrl_loop_run_def run_removal_def request_stop_resolved_def drained_def
      erase_ue_def find_by_rnti_def find_ue_def)

text \<open>
  C9. In a state whose reverse index is well formed: \<open>add_ue\<close>, \<open>find_ue\<close> and
  \<open>find_by_rnti\<close> called with an entity index below \<open>MAX_NOF_UES\<close> and an RNTI other
  than \<open>INVALID_RNTI\<close> fail no assertion; \<open>add_ue\<close> called with an entity index that is
  not below \<open>MAX_NOF_UES\<close> or with \<open>INVALID_RNTI\<close>, \<open>find_ue\<close> called with such an
  index and \<open>find_by_rnti\<close> called with \<open>INVALID_RNTI\<close> end in a failed assertion, not
  in a null result.
\<close>

theorem assertion_iff_precondition:
  assumes w: "wf_state c s"
  shows "(r \<noteq> INVALID_RNTI c \<and> i < MAX_NOF_UES c \<longrightarrow>
            \<not> isl (add_ue c i r cell s) \<and> \<not> isl (find_ue c i s) \<and>
            \<not> isl (find_by_rnti c r s)) \<and>
         (r = INVALID_RNTI c \<or> \<not> i < MAX_NOF_UES c \<longrightarrow> isl (add_ue c i r cell s)) \<and>
         (\<not> i < MAX_NOF_UES c \<longrightarrow> isl (find_ue c i s)) \<and>
         (r = INVALID_RNTI c \<longrightarrow> isl (find_by_rnti c r s))"
proof -
  have "\<not> isl (find_by_rnti c r s)" if "r \<noteq> INVALID_RNTI c"
    by (simp add: find_by_rnti_eq [OF w that])
  then show ?thesis
    by (auto simp: add_ue_def find_ue_def find_by_rnti_def)
qed

theorem assertion_iff_precondition_witness:
  "wf_state example_types one_ue_state \<and>
   \<not> isl (add_ue example_types 3 17923 0 one_ue_state) \<and>
   \<not> isl (find_ue example_types 3 one_ue_state) \<and>
   \<not> isl (find_by_rnti example_types 17923 one_ue_state) \<and>
   isl (add_ue example_types 32 17923 0 one_ue_state) \<and>
   isl (find_ue example_types 32 one_ue_state) \<and>
   isl (find_by_rnti example_types 0 one_ue_state)"
  using assertion_iff_precondition [of example_types one_ue_state 17923 3 0]
    assertion_iff_precondition [of example_types one_ue_state 17923 32 0]
    assertion_iff_precondition [of example_types one_ue_state 0 3 0]
    one_ue_state_invariants
  by simp

subsection \<open>The deferred removal\<close>

text \<open>
  C8. Whenever a move of the component takes an element out of the registry, the control
  loop of that element is drained in the state before the move: the move is a run of the
  main control loop whose head closure was scheduled by \<open>remove_ue\<close> for that entity
  index, the suspension of \<open>request_stop\<close> on the element's control loop has resolved,
  and the move is the erasure that follows the suspension point. No request, no call of
  \<open>remove_ue\<close> and no completion of a task takes an element out.
\<close>

theorem erase_preceded_by_drain:
  assumes step: "mac_step c s s'" and live: "ue_db s i = Some u" and gone: "ue_db s' i = None"
  shows "drained (ctrl_loop u) \<and>
         (\<exists>t ts. main_ctrl_loop s = t # ts \<and> captured_ue_index t = i \<and>
                  request_stop_resolved (ctrl_loop u) \<and>
                  s' = (erase_ue i s)\<lparr>main_ctrl_loop := ts\<rparr>)"
  using step live gone
proof (induction rule: mac_step.induct)
  case (step_create msg s s')
  from ue_create_request_keeps [OF step_create(1,3)] step_create(2) show ?case by simp
next
  case (step_delete s dmsg)
  then show ?case
    by (cases "contains (ue_db s) (delete_ue_index dmsg)")
       (simp_all add: ue_delete_request_def schedule_on_ue_keeps)
next
  case (step_reconfiguration s rmsg)
  then show ?case
    by (cases "contains (ue_db s) (reconf_ue_index rmsg)")
       (simp_all add: ue_reconfiguration_request_def schedule_on_ue_keeps)
next
  case (step_remove j s s')
  from remove_ue_keeps [OF step_remove(1)] step_remove(2,3) show ?case by simp
next
  case (step_task_complete s j)
  then show ?case by (simp add: ue_task_complete_keeps)
next
  case (step_main_loop s s')
  show ?case
  proof (cases "main_ctrl_loop s")
    case Nil
    with step_main_loop show ?thesis by (simp add: main_ctrl_loop_run_def)
  next
    case (Cons t ts)
    show ?thesis
    proof (cases "run_removal t s")
      case (Inl e)
      with Cons step_main_loop(1) show ?thesis by (simp add: main_ctrl_loop_run_def)
    next
      case (Inr p)
      obtain t' s1 where p: "p = (t', s1)" by (cases p)
      from Cons Inr p step_main_loop(1) have "ue_db s' = ue_db s1"
        by (cases t') (auto simp: main_ctrl_loop_run_def)
      with step_main_loop(3) have g1: "ue_db s1 i = None" by simp
      from Inr p have run: "run_removal t s = Inr (t', s1)" by simp
      from run_removal_erases [OF run step_main_loop(2) g1]
      have e: "captured_ue_index t = i" "request_stop_resolved (ctrl_loop u)" "t' = None"
        "s1 = erase_ue i s" by simp_all
      with Cons Inr p step_main_loop(1) have "s' = (erase_ue i s)\<lparr>main_ctrl_loop := ts\<rparr>"
        by (simp add: main_ctrl_loop_run_def)
      with e Cons show ?thesis by (simp add: request_stop_resolved_def)
    qed
  qed
qed

theorem erase_preceded_by_drain_witness:
  "mac_step example_types removal_pending_state removed_state \<and>
   ue_db removal_pending_state 0 =
     Some \<lparr>ue_ctx = \<lparr>du_ue_index = 0, rnti = 17921, pcell_idx = 0\<rparr>, ctrl_loop = []\<rparr> \<and>
   ue_db removed_state 0 = None \<and>
   drained (ctrl_loop
     \<lparr>ue_ctx = \<lparr>du_ue_index = 0, rnti = 17921, pcell_idx = 0\<rparr>, ctrl_loop = []\<rparr>)"
proof -
  have st: "mac_step example_types removal_pending_state removed_state"
    by (rule step_main_loop [OF removal_pending_state_run])
  have live: "ue_db removal_pending_state 0 =
     Some \<lparr>ue_ctx = \<lparr>du_ue_index = 0, rnti = 17921, pcell_idx = 0\<rparr>, ctrl_loop = []\<rparr>"
    by simp
  have gone: "ue_db removed_state 0 = None" by simp
  from erase_preceded_by_drain [OF st live gone] st live gone show ?thesis by simp
qed

section \<open>Properties of the PDU session resource setup routine\<close>

lemma start_procedure_result:
  "pdu_session_res_setup_items msg \<noteq> [] \<Longrightarrow>
   start_procedure msg a b c d =
     \<lparr>stage = terminal, request = msg,
      response = \<lparr>pdu_session_res_setup_response_items =
                    (if a \<and> b \<and> c \<and> d then pdu_session_res_setup_items msg else []),
                  pdu_session_res_failed_to_setup_items =
                    (if a \<and> b \<and> c \<and> d then [] else pdu_session_res_setup_items msg)\<rparr>,
      calls = bearer_context_setup_request #
               (if a then ue_context_modification_request #
                 (if b then bearer_context_modification_request #
                   (if c then [rrc_reconfiguration_request] else []) else []) else [])\<rparr>"
  by (simp add: start_procedure_def start_pdu_session_resource_setup_routine_def answer_def
      issue_call_def abort_routine_def)

text \<open>
  C1. For a request that names at least one PDU session, the routine started by the test
  fixture is ready, and the fixture's success predicate holds exactly when the four stage
  outcomes (bearer context setup, UE context modification, bearer context modification,
  RRC reconfiguration) are all true; it holds exactly when the failed list is empty and
  the succeeded list is not. So one false outcome makes the setup unsuccessful.
\<close>

theorem pdu_session_resource_setup_successful_iff:
  "pdu_session_res_setup_items msg \<noteq> [] \<Longrightarrow>
   ready (start_procedure msg a b c d) \<and>
   (was_pdu_session_resource_setup_successful (start_procedure msg a b c d) \<longleftrightarrow>
      a \<and> b \<and> c \<and> d) \<and>
   (was_pdu_session_resource_setup_successful (start_procedure msg a b c d) \<longleftrightarrow>
      pdu_session_res_failed_to_setup_items (response (start_procedure msg a b c d)) = [] \<and>
      pdu_session_res_setup_response_items (response (start_procedure msg a b c d)) \<noteq> [])"
  by (simp add: start_procedure_result was_pdu_session_resource_setup_successful_def ready_def)

theorem pdu_session_resource_setup_successful_iff_witness:
  "pdu_session_res_setup_items \<lparr>cu_cp_ue_id = 0, pdu_session_res_setup_items = [1]\<rparr> \<noteq> [] \<and>
   was_pdu_session_resource_setup_successful
     (start_procedure \<lparr>cu_cp_ue_id = 0, pdu_session_res_setup_items = [1]\<rparr>
        True True True True) \<and>
   \<not> was_pdu_session_resource_setup_successful
     (start_procedure \<lparr>cu_cp_ue_id = 0, pdu_session_res_setup_items = [1]\<rparr>
        True True False True)"
  using pdu_session_resource_setup_successful_iff
      [of "\<lparr>cu_cp_ue_id = 0, pdu_session_res_setup_items = [1]\<rparr>" True True True True]
    pdu_session_resource_setup_successful_iff
      [of "\<lparr>cu_cp_ue_id = 0, pdu_session_res_setup_items = [1]\<rparr>" True True False True]
  by simp

text \<open>
  C2. For a request that names no PDU session, the routine is ready as soon as it is
  started, before any answer; its succeeded and failed lists are empty; it has made no
  call to a collaborator; and the fixture's success predicate is false. The fixture's
  \<open>start_procedure\<close> leaves the routine as it was started.
\<close>

theorem empty_pdu_session_resource_setup_request:
  "pdu_session_res_setup_items msg = [] \<Longrightarrow>
   ready (start_pdu_session_resource_setup_routine msg) \<and>
   start_procedure msg a b c d = start_pdu_session_resource_setup_routine msg \<and>
   pdu_session_res_setup_response_items
     (response (start_pdu_session_resource_setup_routine msg)) = [] \<and>
   pdu_session_res_failed_to_setup_items
     (response (start_pdu_session_resource_setup_routine msg)) = [] \<and>
   calls (start_pdu_session_resource_setup_routine msg) = [] \<and>
   \<not> was_pdu_session_resource_setup_successful (start_pdu_session_resource_setup_routine msg)"
  by (simp add: start_procedure_def start_pdu_session_resource_setup_routine_def answer_def
      was_pdu_session_resource_setup_successful_def ready_def)

theorem empty_pdu_session_resource_setup_request_witness:
  "pdu_session_res_setup_items \<lparr>cu_cp_ue_id = 0, pdu_session_res_setup_items = []\<rparr> = [] \<and>
   ready (start_procedure \<lparr>cu_cp_ue_id = 0, pdu_session_res_setup_items = []\<rparr>
            True True True True) \<and>
   calls (start_procedure \<lparr>cu_cp_ue_id = 0, pdu_session_res_setup_items = []\<rparr>
            True True True True) = [] \<and>
   \<not> was_pdu_session_resource_setup_successful
       (start_procedure \<lparr>cu_cp_ue_id = 0, pdu_session_res_setup_items = []\<rparr>
          True True True True)"
  using empty_pdu_session_resource_setup_request
      [of "\<lparr>cu_cp_ue_id = 0, pdu_session_res_setup_items = []\<rparr>" True True True True]
  by simp

end
